theory Spec2Isabelle
  imports Complex_Main "HOL-Library.Word"
begin

section \<open>The EMU spectrogram plugin\<close>

text \<open>
  The plugin redraws the visible slice of a spectrogram on every animation frame in which
  something changed. This theory embeds its scheduling and windowing code: the
  constructor, \<open>onInit\<close> with the worker's response callback, \<open>destroy\<close>,
  \<open>calcClosestPowerOf2Gt\<close> and \<open>render\<close>.
\<close>

subsection \<open>JavaScript numbers\<close>

text \<open>
  A JavaScript number is modelled as an exact rational, or one of the three special
  values that a division by zero produces. Rounding to 64-bit floats and the sign of
  zero are left out: every zero divisor is taken as \<open>+0\<close>.
\<close>

datatype jsnum = Num rat | NaN | PosInf | NegInf

fun js_neg :: "jsnum \<Rightarrow> jsnum" where
  "js_neg (Num x) = Num (- x)"
| "js_neg NaN = NaN"
| "js_neg PosInf = NegInf"
| "js_neg NegInf = PosInf"

fun js_add :: "jsnum \<Rightarrow> jsnum \<Rightarrow> jsnum" where
  "js_add (Num x) (Num y) = Num (x + y)"
| "js_add (Num x) b = b"
| "js_add NaN b = NaN"
| "js_add PosInf b = (if b = NaN \<or> b = NegInf then NaN else PosInf)"
| "js_add NegInf b = (if b = NaN \<or> b = PosInf then NaN else NegInf)"

definition js_sub :: "jsnum \<Rightarrow> jsnum \<Rightarrow> jsnum" where
  "js_sub a b = js_add a (js_neg b)"

fun js_mul :: "jsnum \<Rightarrow> jsnum \<Rightarrow> jsnum" where
  "js_mul (Num x) (Num y) = Num (x * y)"
| "js_mul NaN b = NaN"
| "js_mul a NaN = NaN"
| "js_mul (Num x) b = (if x = 0 then NaN else if 0 < x then b else js_neg b)"
| "js_mul a (Num y) = (if y = 0 then NaN else if 0 < y then a else js_neg a)"
| "js_mul PosInf b = b"
| "js_mul NegInf b = js_neg b"

fun js_div :: "jsnum \<Rightarrow> jsnum \<Rightarrow> jsnum" where
  "js_div (Num x) (Num y) =
     (if y \<noteq> 0 then Num (x / y)
      else if x = 0 then NaN
      else if 0 < x then PosInf else NegInf)"
| "js_div NaN b = NaN"
| "js_div a NaN = NaN"
| "js_div (Num x) b = Num 0"
| "js_div a (Num y) = (if 0 \<le> y then a else js_neg a)"
| "js_div a b = NaN"

text \<open>\<open>Math.floor\<close>.\<close>

fun js_floor :: "jsnum \<Rightarrow> jsnum" where
  "js_floor (Num x) = Num (of_int \<lfloor>x\<rfloor>)"
| "js_floor a = a"

text \<open>The comparisons \<open>==\<close> and \<open><\<close> on numbers: \<open>NaN\<close> compares false with everything.\<close>

fun js_eq :: "jsnum \<Rightarrow> jsnum \<Rightarrow> bool" where
  "js_eq NaN b = False"
| "js_eq a NaN = False"
| "js_eq a b = (a = b)"

fun js_lt :: "jsnum \<Rightarrow> jsnum \<Rightarrow> bool" where
  "js_lt (Num x) (Num y) = (x < y)"
| "js_lt NaN b = False"
| "js_lt a NaN = False"
| "js_lt a NegInf = False"
| "js_lt PosInf b = False"
| "js_lt a b = True"

definition js_gt :: "jsnum \<Rightarrow> jsnum \<Rightarrow> bool" where
  "js_gt a b = js_lt b a"

definition js_le :: "jsnum \<Rightarrow> jsnum \<Rightarrow> bool" where
  "js_le a b = (js_lt a b \<or> js_eq a b)"

subsection \<open>Typed arrays\<close>

text \<open>
  \<open>TypedArray.prototype.subarray(begin, end)\<close>: each bound goes through
  \<open>ToIntegerOrInfinity\<close> (\<open>NaN\<close> is 0, a fraction is cut towards zero), a negative bound
  counts from the end, both are clamped to the array, and an inverted pair gives the
  empty view.
\<close>

definition js_trunc :: "rat \<Rightarrow> int" where
  "js_trunc x = (if 0 \<le> x then \<lfloor>x\<rfloor> else \<lceil>x\<rceil>)"

fun relativeIndex :: "nat \<Rightarrow> jsnum \<Rightarrow> nat" where
  "relativeIndex len NaN = 0"
| "relativeIndex len PosInf = len"
| "relativeIndex len NegInf = 0"
| "relativeIndex len (Num x) =
     (let r = js_trunc x
      in if r < 0 then nat (max (int len + r) 0) else nat (min r (int len)))"

definition subarray :: "'a list \<Rightarrow> jsnum \<Rightarrow> jsnum \<Rightarrow> 'a list" where
  "subarray xs b e =
     (let beginIndex = relativeIndex (length xs) b;
          endIndex = relativeIndex (length xs) e
      in take (endIndex - beginIndex) (drop beginIndex xs))"

subsection \<open>calcClosestPowerOf2Gt\<close>

text \<open>
  The loop \<open>while (Math.pow(2, curExp) < num) curExp = curExp + 1\<close>, started at
  \<open>curExp = 0\<close>, as a recursion on the exponent.
\<close>

function calcLoop :: "rat \<Rightarrow> nat \<Rightarrow> nat" where
  "calcLoop num curExp = (if (2 :: rat) ^ curExp < num then calcLoop num (curExp + 1) else 2 ^ curExp)"
  by pat_completeness auto

termination calcLoop
proof (relation "measure (\<lambda>(num, e). nat \<lceil>num\<rceil> - 2 ^ e)")
  show "wf (measure (\<lambda>(num, e). nat \<lceil>num\<rceil> - 2 ^ e))" by simp
next
  fix num :: rat and curExp :: nat
  assume less: "2 ^ curExp < num"
  define n where "n = nat \<lceil>num\<rceil>"
  define k :: nat where "k = 2 ^ curExp"
  have "(of_nat k :: rat) < num" using less by (simp add: k_def)
  also have "num \<le> of_int \<lceil>num\<rceil>" by (rule le_of_int_ceiling)
  finally have "(of_int (int k) :: rat) < of_int \<lceil>num\<rceil>" by simp
  then have "int k < \<lceil>num\<rceil>" by (simp only: of_int_less_iff)
  then have "k < n" unfolding n_def by linarith
  moreover have "0 < k" by (simp add: k_def)
  ultimately have "n - 2 * k < n - k" by arith
  then have "nat \<lceil>num\<rceil> - 2 ^ (curExp + 1) < nat \<lceil>num\<rceil> - 2 ^ curExp"
    by (simp add: n_def k_def)
  then show "((num, curExp + 1), (num, curExp)) \<in> measure (\<lambda>(num, e). nat \<lceil>num\<rceil> - 2 ^ e)"
    by (simp only: in_measure prod.case)
qed

declare calcLoop.simps [simp del]

definition calcClosestPowerOf2Gt :: "rat \<Rightarrow> nat" where
  "calcClosestPowerOf2Gt num = calcLoop num 0"

text \<open>
  Lines 371 to 374 of \<open>render\<close>: the FFT size is that power of two, raised to 512 when
  it is smaller.
\<close>

definition fftSize :: "rat \<Rightarrow> rat \<Rightarrow> nat" where
  "fftSize sampleRate windowSizeInSecs =
     (let fftN = calcClosestPowerOf2Gt (sampleRate * windowSizeInSecs)
      in if fftN < 512 then 512 else fftN)"

subsection \<open>Data\<close>

text \<open>
  The options after \<open>Object.assign({}, defaultOptions, options)\<close>. The fields that only
  style the DOM (container, insertPosition, height) are left out. \<open>upperFreq\<close> has no
  default: it is \<open>undefined\<close> (\<open>None\<close>) unless the caller sets it.
\<close>

record plugin_options =
  channel :: nat
  windowSizeInSecs :: rat
  upperFreq :: "rat option"
  lowerFreq :: rat
  alpha :: rat
  window :: string
  dynRangeInDB :: rat
  preEmphasisFilterFactor :: rat
  transparency :: rat
  drawHeatMapColors :: bool
  heatMapColorAnchors :: "nat list list"
  invert :: bool

definition defaultOptions :: plugin_options where
  "defaultOptions =
     \<lparr>channel = 0, windowSizeInSecs = 5 / 1000, upperFreq = None, lowerFreq = 0,
      alpha = 16 / 100, window = ''hamming'', dynRangeInDB = 70,
      preEmphasisFilterFactor = 97 / 100, transparency = 255, drawHeatMapColors = False,
      heatMapColorAnchors = [[255, 0, 0], [0, 255, 0], [0, 0, 0]], invert = False\<rparr>"

datatype error =
  UnknownWindowType string
  | NotInitialized
  | TypeError
  | IndexSizeError
  | RangeError

type_synonym sample = rat
type_synonym byte = "8 word"

text \<open>The decoded audio (an \<open>AudioBuffer\<close>) and what the host reports at a tick.\<close>

record audio_buffer =
  ab_length :: nat
  ab_sampleRate :: rat
  ab_channels :: "sample list list"

definition getChannelData :: "audio_buffer \<Rightarrow> nat \<Rightarrow> error + sample list" where
  "getChannelData d c =
     (if c < length (ab_channels d) then Inr (ab_channels d ! c) else Inl IndexSizeError)"

record host =
  scrollLeft :: rat
  scrollWidth :: rat
  clientWidth :: rat
  decodedData :: "audio_buffer option"
  offsetHeight :: nat
  offsetWidth :: nat
  devicePixelRatio :: rat

text \<open>The message of \<open>spectroWorker.tell\<close>, field by field.\<close>

record request =
  req_windowSizeInSecs :: rat
  req_fftN :: nat
  req_alpha :: rat
  req_upperFreq :: rat
  req_lowerFreq :: rat
  req_samplesPerPxl :: jsnum
  req_window :: nat
  req_imgWidth :: nat
  req_imgHeight :: nat
  req_dynRangeInDB :: rat
  req_pixelRatio :: rat
  req_sampleRate :: rat
  req_transparency :: rat
  req_audioBuffer :: "sample list"
  req_audioBufferChannels :: nat
  req_drawHeatMapColors :: bool
  req_preEmphasisFilterFactor :: rat
  req_heatMapColorAnchors :: "nat list list"
  req_invert :: bool

text \<open>
  An \<open>ImageData\<close> object with the identity of its allocation (\<open>img_ref\<close>), and the
  canvas with the bitmap it shows.
\<close>

record image_data =
  img_ref :: nat
  img_width :: nat
  img_height :: nat
  img_data :: "byte list"

record canvas_el =
  cv_width :: nat
  cv_height :: nat
  cv_bitmap :: "byte list"

datatype obj = Obj

text \<open>
  The plugin instance, with the two queues its effects go to: the animation-frame
  callbacks requested and not yet run, and the messages told to the worker and not yet
  answered. \<open>allocated\<close> counts the \<open>ImageData\<close> objects created so far and is the
  identity of the next one. A field that the code sets to \<open>null\<close> is an option.
\<close>

record state =
  options :: "plugin_options option"
  windowNum :: nat
  wavesurfer :: "obj option"
  wrapper :: "obj option"
  canvas :: canvas_el
  imageData :: image_data
  spectroWorker :: "obj option"
  update_needed :: bool
  old_sS :: jsnum
  old_eS :: jsnum
  terminated :: bool
  animationFrames :: nat
  workerInbox :: "request list"
  workerKilled :: bool
  allocated :: nat

subsection \<open>The canvas and the worker\<close>

definition zeros :: "nat \<Rightarrow> byte list" where
  "zeros n = replicate n 0"

text \<open>
  Modelled from the spec: the 2D context (\<open>createImageData\<close>, \<open>putImageData\<close>) is the
  browser's. A new buffer is zero-initialised and has width * height * 4 bytes; the blit
  at the origin replaces the bitmap; assigning the size of a canvas clears it.
\<close>

definition createImageData :: "nat \<Rightarrow> nat \<Rightarrow> state \<Rightarrow> state" where
  "createImageData w h s =
     s\<lparr>imageData :=
         \<lparr>img_ref = allocated s, img_width = w, img_height = h, img_data = zeros (w * h * 4)\<rparr>,
       allocated := allocated s + 1\<rparr>"

definition putImageData :: "image_data \<Rightarrow> state \<Rightarrow> state" where
  "putImageData img s = s\<lparr>canvas := (canvas s)\<lparr>cv_bitmap := img_data img\<rparr>\<rparr>"

definition resizeCanvas :: "nat \<Rightarrow> nat \<Rightarrow> state \<Rightarrow> state" where
  "resizeCanvas h w s =
     s\<lparr>canvas := \<lparr>cv_width = w, cv_height = h, cv_bitmap = zeros (w * h * 4)\<rparr>\<rparr>"

text \<open>\<open>TypedArray.prototype.set\<close> at offset 0: a source longer than the target is a RangeError.\<close>

definition typedArraySet :: "'a list \<Rightarrow> 'a list \<Rightarrow> error + 'a list" where
  "typedArraySet target src =
     (if length target < length src then Inl RangeError
      else Inr (src @ drop (length src) target))"

definition requestAnimationFrame :: "state \<Rightarrow> state" where
  "requestAnimationFrame s = s\<lparr>animationFrames := animationFrames s + 1\<rparr>"

text \<open>
  Modelled from the spec: \<open>SpectroDrawingWorker\<close> (./spectro-drawing.worker.js) is not
  among the sources. \<open>tell\<close> is fire-and-forget and queues the request; there is no
  mid-flight cancellation, so \<open>kill\<close> marks the worker and leaves the queue alone.
\<close>

definition tell :: "request \<Rightarrow> state \<Rightarrow> state" where
  "tell r s = s\<lparr>workerInbox := workerInbox s @ [r]\<rparr>"

definition kill :: "state \<Rightarrow> state" where
  "kill s = s\<lparr>workerKilled := True\<rparr>"

subsection \<open>Construction, attachment and destruction\<close>

definition windowNumOf :: "string \<Rightarrow> error + nat" where
  "windowNumOf w =
     (if w = ''bartlett'' then Inr 1
      else if w = ''bartletthann'' then Inr 2
      else if w = ''blackman'' then Inr 3
      else if w = ''cosine'' then Inr 4
      else if w = ''gauss'' then Inr 5
      else if w = ''hamming'' then Inr 6
      else if w = ''hann'' then Inr 7
      else if w = ''lanczos'' then Inr 8
      else if w = ''rectangular'' then Inr 9
      else if w = ''triangular'' then Inr 10
      else Inl (UnknownWindowType w))"

text \<open>
  The constructor. A new canvas element is 300 by 150; the first \<open>ImageData\<close> has that
  size. \<open>wavesurfer\<close> is set later, when the plugin is attached.
\<close>

definition create :: "plugin_options \<Rightarrow> error + state" where
  "create opts =
     (case windowNumOf (window opts) of
        Inl e \<Rightarrow> Inl e
      | Inr n \<Rightarrow>
          Inr (createImageData 300 150
            \<lparr>options = Some opts, windowNum = n, wavesurfer = None, wrapper = Some Obj,
             canvas = \<lparr>cv_width = 300, cv_height = 150, cv_bitmap = zeros (300 * 150 * 4)\<rparr>,
             imageData = \<lparr>img_ref = 0, img_width = 0, img_height = 0, img_data = []\<rparr>,
             spectroWorker = Some Obj, update_needed = False,
             old_sS = Num (- 1), old_eS = Num (- 1), terminated = False,
             animationFrames = 0, workerInbox = [], workerKilled = False, allocated = 0\<rparr>))"

text \<open>
  \<open>onInit\<close> inserts the wrapper into the page, registers the response callback
  (\<open>says_handler\<close> below) and the three host events that set \<open>update_needed\<close>, and
  requests the first animation frame.
\<close>

definition onInit :: "state \<Rightarrow> state \<times> error option" where
  "onInit s =
     (case wavesurfer s of
        None \<Rightarrow> (s, Some NotInitialized)
      | Some ws \<Rightarrow> (requestAnimationFrame s, None))"

text \<open>
  Modelled from the spec: \<open>BasePlugin\<close> (../base-plugin.js) is not among the sources.
  Attaching the plugin stores the host and calls \<open>onInit\<close>.
\<close>

definition attach :: "state \<Rightarrow> state \<times> error option" where
  "attach s = onInit (s\<lparr>wavesurfer := Some Obj\<rparr>)"

text \<open>The callback given to \<open>spectroWorker.says\<close>; \<open>img\<close> is \<open>event.img\<close>.\<close>

definition says_handler :: "byte list \<Rightarrow> state \<Rightarrow> state \<times> error option" where
  "says_handler img s =
     (let s1 = (if img_width (imageData s) \<noteq> cv_width (canvas s)
                  \<or> img_height (imageData s) \<noteq> cv_height (canvas s)
                then createImageData (cv_width (canvas s)) (cv_height (canvas s)) s
                else s);
          tmp = img
      in case typedArraySet (img_data (imageData s1)) tmp of
           Inl e \<Rightarrow> (s1, Some e)
         | Inr data \<Rightarrow>
             let s2 = s1\<lparr>imageData := (imageData s1)\<lparr>img_data := data\<rparr>\<rparr>;
                 s3 = putImageData (imageData s2) s2
             in (requestAnimationFrame s3, None))"

text \<open>
  \<open>destroy\<close>. The wrapper is removed only if it is there; the worker is killed without
  such a test, so a \<open>null\<close> worker is a TypeError, raised after the assignments before it.
\<close>

definition destroy :: "state \<Rightarrow> state \<times> error option" where
  "destroy s =
     (let s1 = s\<lparr>terminated := True, wavesurfer := None, options := None\<rparr>;
          s2 = (case wrapper s1 of None \<Rightarrow> s1 | Some wr \<Rightarrow> s1\<lparr>wrapper := None\<rparr>)
      in case spectroWorker s2 of
           None \<Rightarrow> (s2, Some TypeError)
         | Some w \<Rightarrow> ((kill s2)\<lparr>spectroWorker := None\<rparr>, None))"

subsection \<open>render\<close>

text \<open>Lines 345 and 346: the first and the last visible sample.\<close>

definition sS :: "host \<Rightarrow> nat \<Rightarrow> jsnum" where
  "sS h nS = js_floor (js_mul (js_div (Num (scrollLeft h)) (Num (scrollWidth h))) (Num (of_nat nS)))"

definition eS :: "host \<Rightarrow> nat \<Rightarrow> jsnum" where
  "eS h nS =
     js_floor (js_mul (js_div (js_add (Num (scrollLeft h)) (Num (clientWidth h)))
                              (Num (scrollWidth h)))
                      (Num (of_nat nS)))"

text \<open>
  Lines 379 to 392: the visible samples with the context before and after them. The new
  \<open>Float32Array\<close> has the three lengths added up and is filled by three \<open>set\<close> calls
  that tile it, so it is the concatenation.
\<close>

definition paddedSamples :: "'a list \<Rightarrow> jsnum \<Rightarrow> jsnum \<Rightarrow> rat \<Rightarrow> nat \<Rightarrow> 'a list" where
  "paddedSamples buffer s e windowSizeInSamples fftN =
     (let data = subarray buffer s e;
          left_padding =
            (if js_gt s (Num (windowSizeInSamples / 2))
             then subarray buffer (js_sub s (Num (windowSizeInSamples / 2))) s
             else []);
          right_padding =
            (if js_lt (js_sub (js_add e (Num (of_nat fftN / 2))) (Num 1)) (Num (of_nat (length buffer)))
             then subarray buffer e (js_sub (js_add e (Num (of_nat fftN / 2))) (Num 1))
             else [])
      in left_padding @ data @ right_padding)"

text \<open>
  Lines 369 to 420: the analysis parameters and the message for the worker, from the state
  after the canvas was resized, the options, the decoded audio, the chosen channel and the
  sample range.
\<close>

definition buildRequest ::
  "host \<Rightarrow> state \<Rightarrow> plugin_options \<Rightarrow> audio_buffer \<Rightarrow> sample list \<Rightarrow> jsnum \<Rightarrow> jsnum \<Rightarrow> request" where
  "buildRequest h s opts d buffer s_S e_S =
     (let sampleRate = ab_sampleRate d;
          fftN = fftSize sampleRate (windowSizeInSecs opts);
          windowSizeInSamples = windowSizeInSecs opts * sampleRate;
          samplesPerPxl =
            js_div (js_sub (js_add e_S (Num 1)) s_S) (Num (of_nat (cv_width (canvas s))));
          padded = paddedSamples buffer s_S e_S windowSizeInSamples fftN;
          upper =
            (case upperFreq opts of
               None \<Rightarrow> sampleRate / 2
             | Some u \<Rightarrow> if u \<noteq> 0 then u else sampleRate / 2)
      in \<lparr>req_windowSizeInSecs = windowSizeInSecs opts,
          req_fftN = fftN,
          req_alpha = alpha opts,
          req_upperFreq = upper,
          req_lowerFreq = lowerFreq opts,
          req_samplesPerPxl = samplesPerPxl,
          req_window = windowNum s,
          req_imgWidth = cv_width (canvas s),
          req_imgHeight = cv_height (canvas s),
          req_dynRangeInDB = dynRangeInDB opts,
          req_pixelRatio = devicePixelRatio h,
          req_sampleRate = sampleRate,
          req_transparency = transparency opts,
          req_audioBuffer = padded,
          req_audioBufferChannels = 1,
          req_drawHeatMapColors = drawHeatMapColors opts,
          req_preEmphasisFilterFactor = preEmphasisFilterFactor opts,
          req_heatMapColorAnchors = heatMapColorAnchors opts,
          req_invert = invert opts\<rparr>)"

text \<open>
  One tick. The result is the state after it and the exception that ended it, if any; the
  assignments made before a throw stay.
\<close>

definition render :: "host \<Rightarrow> state \<Rightarrow> state \<times> error option" where
  "render h s =
     (if terminated s then (s, None)
      else if \<not> update_needed s then (requestAnimationFrame s, None)
      else case wavesurfer s of
        None \<Rightarrow> (s, Some TypeError)
      | Some ws \<Rightarrow>
        (case decodedData h of
           None \<Rightarrow> (requestAnimationFrame (s\<lparr>update_needed := False\<rparr>), None)
         | Some d \<Rightarrow>
           let nS = ab_length d;
               s_S = sS h nS;
               e_S = eS h nS
           in if js_eq s_S (old_sS s) \<and> js_eq e_S (old_eS s)
              then (requestAnimationFrame (s\<lparr>update_needed := False\<rparr>), None)
              else
                let s1 = s\<lparr>update_needed := False, old_sS := s_S, old_eS := e_S\<rparr>
                in case wrapper s1 of
                  None \<Rightarrow> (s1, Some TypeError)
                | Some wr \<Rightarrow>
                  let s2 = resizeCanvas (offsetHeight h) (offsetWidth h) s1
                  in case options s2 of
                    None \<Rightarrow> (s2, Some TypeError)
                  | Some opts \<Rightarrow>
                    (case getChannelData d (channel opts) of
                       Inl err \<Rightarrow> (s2, Some err)
                     | Inr buffer \<Rightarrow>
                       let req = buildRequest h s2 opts d buffer s_S e_S
                       in case spectroWorker s2 of
                            None \<Rightarrow> (s2, Some TypeError)
                          | Some w \<Rightarrow> (tell req s2, None))))"

subsection \<open>The event loop\<close>

text \<open>
  What can happen to an attached plugin: an animation frame fires and runs \<open>render\<close>
  with whatever the host reports then; the worker answers its oldest request and the
  callback runs; a host event (redraw, scroll, ready) sets \<open>update_needed\<close>; the plugin
  is destroyed.
\<close>

inductive reachable :: "state \<Rightarrow> bool" where
  init: "create opts = Inr p \<Longrightarrow> attach p = (s, None) \<Longrightarrow> reachable s"
| frame: "reachable s \<Longrightarrow> 0 < animationFrames s \<Longrightarrow>
    reachable (fst (render h (s\<lparr>animationFrames := animationFrames s - 1\<rparr>)))"
| response: "reachable s \<Longrightarrow> workerInbox s = r # rs \<Longrightarrow>
    reachable (fst (says_handler img (s\<lparr>workerInbox := rs\<rparr>)))"
| event: "reachable s \<Longrightarrow> reachable (s\<lparr>update_needed := True\<rparr>)"
| detach: "reachable s \<Longrightarrow> reachable (fst (destroy s))"

subsection \<open>The viewport mapping as the specification words it\<close>





subsection \<open>The padding as the specification words it\<close>



subsection \<open>Example inputs\<close>

text \<open>The plugin created with the default options, attached, before its first tick.\<close>

definition attached_state :: state where
  "attached_state =
     \<lparr>options = Some defaultOptions, windowNum = 6, wavesurfer = Some Obj, wrapper = Some Obj,
      canvas = \<lparr>cv_width = 300, cv_height = 150, cv_bitmap = zeros 180000\<rparr>,
      imageData = \<lparr>img_ref = 0, img_width = 300, img_height = 150, img_data = zeros 180000\<rparr>,
      spectroWorker = Some Obj, update_needed = False,
      old_sS = Num (- 1), old_eS = Num (- 1), terminated = False,
      animationFrames = 1, workerInbox = [], workerKilled = False, allocated = 1\<rparr>"

text \<open>One second of mono audio at 44100 Hz, half of it visible, in a wrapper of 2 by 1 pixels.\<close>

definition audio44100 :: audio_buffer where
  "audio44100 = \<lparr>ab_length = 44100, ab_sampleRate = 44100, ab_channels = [replicate 44100 0]\<rparr>"

definition half_visible :: host where
  "half_visible =
     \<lparr>scrollLeft = 0, scrollWidth = 44100, clientWidth = 22050, decodedData = Some audio44100,
      offsetHeight = 1, offsetWidth = 2, devicePixelRatio = 1\<rparr>"

text \<open>The same audio with nothing visible, and with the samples 1000 to 2000 visible.\<close>

definition nothing_visible :: host where
  "nothing_visible = half_visible\<lparr>clientWidth := 0\<rparr>"

definition visible_1000_2000 :: host where
  "visible_1000_2000 = half_visible\<lparr>scrollLeft := 1000, clientWidth := 1000\<rparr>"



text \<open>
  After a host event and the first tick on that audio a request is in flight; then the
  plugin is destroyed while the worker still holds the request.
\<close>

definition in_flight_state :: state where
  "in_flight_state =
     fst (render half_visible (attached_state\<lparr>update_needed := True, animationFrames := 0\<rparr>))"

definition detached_state :: state where
  "detached_state = fst (destroy in_flight_state)"

section \<open>Properties\<close>

subsection \<open>The FFT size\<close>





subsection \<open>What a tick does\<close>

lemma js_eq_eq: "js_eq a b \<Longrightarrow> a = b"
  by (cases a; cases b) simp_all

lemma js_eq_Num [simp]: "js_eq (Num x) b = (b = Num x)"
  by (cases b) auto

text \<open>The one path of \<open>render\<close> that reaches \<open>tell\<close>.\<close>

lemma render_submits:
  assumes "\<not> terminated s" "update_needed s" "wavesurfer s = Some ws"
    and "decodedData h = Some d"
    and "\<not> (js_eq (sS h (ab_length d)) (old_sS s) \<and> js_eq (eS h (ab_length d)) (old_eS s))"
    and "wrapper s = Some wr" "options s = Some opts"
    and "getChannelData d (channel opts) = Inr buffer"
    and "spectroWorker s = Some w"
  shows "render h s =
    (let s2 = resizeCanvas (offsetHeight h) (offsetWidth h)
                (s\<lparr>update_needed := False, old_sS := sS h (ab_length d), old_eS := eS h (ab_length d)\<rparr>)
     in (tell (buildRequest h s2 opts d buffer (sS h (ab_length d)) (eS h (ab_length d))) s2, None))"
  using assms by (auto simp: render_def Let_def resizeCanvas_def)

text \<open>Every other path leaves the worker's queue as it was.\<close>

lemma render_inbox:
  "workerInbox (fst (render h s)) = workerInbox s
   \<or> (\<exists>d opts buffer.
        \<not> terminated s \<and> update_needed s \<and> decodedData h = Some d \<and> options s = Some opts
        \<and> getChannelData d (channel opts) = Inr buffer
        \<and> \<not> (js_eq (sS h (ab_length d)) (old_sS s) \<and> js_eq (eS h (ab_length d)) (old_eS s))
        \<and> animationFrames (fst (render h s)) = animationFrames s
        \<and> workerInbox (fst (render h s)) =
            workerInbox s @
              [buildRequest h
                 (resizeCanvas (offsetHeight h) (offsetWidth h)
                    (s\<lparr>update_needed := False, old_sS := sS h (ab_length d),
                       old_eS := eS h (ab_length d)\<rparr>))
                 opts d buffer (sS h (ab_length d)) (eS h (ab_length d))])"
  by (auto simp: render_def Let_def resizeCanvas_def requestAnimationFrame_def tell_def
           split: option.splits sum.splits)

lemma render_range:
  assumes "\<not> terminated s" "update_needed s" "wavesurfer s \<noteq> None" "decodedData h = Some d"
  shows "old_sS (fst (render h s)) = sS h (ab_length d) \<and> old_eS (fst (render h s)) = eS h (ab_length d)"
  using assms
  by (auto simp: render_def Let_def resizeCanvas_def requestAnimationFrame_def tell_def
           dest: js_eq_eq split: option.splits sum.splits)



lemma attached_state_created:
  "\<exists>p. create defaultOptions = Inr p \<and> attach p = (attached_state, None)"
  by (simp add: create_def defaultOptions_def windowNumOf_def createImageData_def attach_def
        onInit_def requestAnimationFrame_def attached_state_def)

lemma reachable_attached_state: "reachable attached_state"
  using attached_state_created by (auto intro: reachable.init)

subsection \<open>The viewport mapping\<close>



subsection \<open>The upper frequency\<close>

text \<open>
  C10. When a tick sends a request and the option upperFreq is unset or 0, the request
  carries half the sample rate; and whatever the option is, the request's upper frequency
  is 0 only if the sample rate is.
\<close>

theorem upperFreq_falsy_is_default:
  assumes "options s = Some opts" "decodedData h = Some d"
    and "workerInbox (fst (render h s)) = workerInbox s @ [r]"
  shows "(upperFreq opts = None \<or> upperFreq opts = Some 0 \<longrightarrow> req_upperFreq r = ab_sampleRate d / 2)
    \<and> (ab_sampleRate d \<noteq> 0 \<longrightarrow> req_upperFreq r \<noteq> 0)"
proof -
  from render_inbox [of h s] assms(3)
  obtain d' opts' buffer s2 where
    "decodedData h = Some d'" "options s = Some opts'"
    "workerInbox (fst (render h s)) =
       workerInbox s @ [buildRequest h s2 opts' d' buffer (sS h (ab_length d')) (eS h (ab_length d'))]"
    by auto
  with assms have "r = buildRequest h s2 opts d buffer (sS h (ab_length d)) (eS h (ab_length d))"
    by simp
  then show ?thesis
    by (auto simp: buildRequest_def Let_def split: option.splits)
qed

theorem upperFreq_falsy_is_default_witness:
  "\<exists>r. workerInbox (fst (render half_visible
             (attached_state\<lparr>update_needed := True,
                options := Some (defaultOptions\<lparr>upperFreq := Some 0\<rparr>)\<rparr>))) = [r]
       \<and> req_upperFreq r = 22050"
proof -
  let ?s = "attached_state\<lparr>update_needed := True, options := Some (defaultOptions\<lparr>upperFreq := Some 0\<rparr>)\<rparr>"
  let ?s2 = "resizeCanvas (offsetHeight half_visible) (offsetWidth half_visible)
      (?s\<lparr>update_needed := False, old_sS := sS half_visible (ab_length audio44100),
          old_eS := eS half_visible (ab_length audio44100)\<rparr>)"
  let ?r = "buildRequest half_visible ?s2 (defaultOptions\<lparr>upperFreq := Some 0\<rparr>) audio44100
      (replicate 44100 0) (sS half_visible (ab_length audio44100)) (eS half_visible (ab_length audio44100))"
  have 1: "options ?s = Some (defaultOptions\<lparr>upperFreq := Some 0\<rparr>)"
    by (simp add: attached_state_def)
  have 2: "decodedData half_visible = Some audio44100" by (simp add: half_visible_def)
  have "render half_visible ?s = (tell ?r ?s2, None)"
    by (rule render_submits [where ws = Obj and wr = Obj and w = Obj, unfolded Let_def])
       (simp_all add: attached_state_def half_visible_def audio44100_def getChannelData_def
          defaultOptions_def sS_def eS_def)
  then have 3: "workerInbox (fst (render half_visible ?s)) = workerInbox ?s @ [?r]"
    by (simp add: tell_def resizeCanvas_def)
  from upperFreq_falsy_is_default [OF 1 2 3]
  have "req_upperFreq ?r = ab_sampleRate audio44100 / 2" by simp
  then have "req_upperFreq ?r = 22050" by (simp add: audio44100_def)
  moreover have "workerInbox (fst (render half_visible ?s)) = [?r]"
    using 3 by (simp add: attached_state_def)
  ultimately show ?thesis by blast
qed

subsection \<open>The example states\<close>

lemma length_zeros [simp]: "length (zeros n) = n"
  by (simp add: zeros_def)

lemma in_flight_state_eq:
  "in_flight_state =
     tell (buildRequest half_visible
             (resizeCanvas 1 2 (attached_state\<lparr>animationFrames := 0, update_needed := False,
                old_sS := Num 0, old_eS := Num 22050\<rparr>))
             defaultOptions audio44100 (replicate 44100 0) (Num 0) (Num 22050))
       (resizeCanvas 1 2 (attached_state\<lparr>animationFrames := 0, update_needed := False,
          old_sS := Num 0, old_eS := Num 22050\<rparr>))"
proof -
  have s: "sS half_visible (ab_length audio44100) = Num 0"
    and e: "eS half_visible (ab_length audio44100) = Num 22050"
    by (simp_all add: sS_def eS_def half_visible_def audio44100_def)
  have "render half_visible (attached_state\<lparr>update_needed := True, animationFrames := 0\<rparr>) =
    (let s2 = resizeCanvas (offsetHeight half_visible) (offsetWidth half_visible)
                (attached_state\<lparr>update_needed := True, animationFrames := 0\<rparr>
                   \<lparr>update_needed := False, old_sS := sS half_visible (ab_length audio44100),
                    old_eS := eS half_visible (ab_length audio44100)\<rparr>)
     in (tell (buildRequest half_visible s2 defaultOptions audio44100 (replicate 44100 0)
                 (sS half_visible (ab_length audio44100)) (eS half_visible (ab_length audio44100))) s2, None))"
    by (rule render_submits [where ws = Obj and wr = Obj and w = Obj])
       (simp_all add: attached_state_def half_visible_def audio44100_def getChannelData_def
          defaultOptions_def sS_def eS_def)
  moreover have "offsetHeight half_visible = 1" "offsetWidth half_visible = 2"
    by (simp_all add: half_visible_def)
  ultimately show ?thesis
    by (simp add: in_flight_state_def Let_def s e)
qed

lemma reachable_in_flight_state: "reachable in_flight_state"
proof -
  have "reachable (attached_state\<lparr>update_needed := True\<rparr>)"
    by (rule reachable.event [OF reachable_attached_state])
  then have "reachable (fst (render half_visible
      ((attached_state\<lparr>update_needed := True\<rparr>)
         \<lparr>animationFrames := animationFrames (attached_state\<lparr>update_needed := True\<rparr>) - 1\<rparr>)))"
    by (rule reachable.frame) (simp add: attached_state_def)
  then show ?thesis by (simp add: in_flight_state_def attached_state_def)
qed

lemma detached_state_eq:
  "detached_state = in_flight_state\<lparr>terminated := True, wavesurfer := None, options := None,
      wrapper := None, workerKilled := True, spectroWorker := None\<rparr>"
  by (simp add: detached_state_def destroy_def Let_def kill_def in_flight_state_eq tell_def
        resizeCanvas_def attached_state_def)

lemma reachable_detached_state: "reachable detached_state"
  unfolding detached_state_def by (rule reachable.detach [OF reachable_in_flight_state])

subsection \<open>Destroying twice\<close>

text \<open>
  C8. The first \<open>destroy\<close> of the attached plugin completes; the second one raises a
  TypeError at \<open>this.spectroWorker.kill()\<close>, because the first set the field to
  \<open>null\<close>. The plugin stays terminated.
\<close>

theorem destroy_twice_raises:
  "snd (destroy attached_state) = None
   \<and> snd (destroy (fst (destroy attached_state))) = Some TypeError
   \<and> terminated (fst (destroy (fst (destroy attached_state))))"
  by (simp add: destroy_def Let_def kill_def attached_state_def)

subsection \<open>The image buffer\<close>

lemma says_handler_ref:
  "img_ref (imageData (fst (says_handler img s))) =
     (if img_width (imageData s) \<noteq> cv_width (canvas s) \<or> img_height (imageData s) \<noteq> cv_height (canvas s)
      then allocated s else img_ref (imageData s))"
  by (simp add: says_handler_def Let_def createImageData_def putImageData_def
        requestAnimationFrame_def typedArraySet_def)

lemma says_handler_allocated:
  "allocated (fst (says_handler img s)) =
     (if img_width (imageData s) \<noteq> cv_width (canvas s) \<or> img_height (imageData s) \<noteq> cv_height (canvas s)
      then allocated s + 1 else allocated s)"
  by (simp add: says_handler_def Let_def createImageData_def putImageData_def
        requestAnimationFrame_def typedArraySet_def)

lemma says_handler_dims:
  "img_width (imageData (fst (says_handler img s))) = cv_width (canvas s)
   \<and> img_height (imageData (fst (says_handler img s))) = cv_height (canvas s)"
  by (simp add: says_handler_def Let_def createImageData_def putImageData_def
        requestAnimationFrame_def typedArraySet_def)

lemma render_imageData: "imageData (fst (render h s)) = imageData s \<and> allocated (fst (render h s)) = allocated s"
  by (simp add: render_def Let_def resizeCanvas_def requestAnimationFrame_def tell_def
        split: option.splits sum.splits)

lemma destroy_imageData: "imageData (fst (destroy s)) = imageData s \<and> allocated (fst (destroy s)) = allocated s"
  by (simp add: destroy_def Let_def kill_def split: option.splits)

text \<open>The buffer in use is one of the buffers created so far.\<close>

lemma reachable_ref: "reachable s \<Longrightarrow> img_ref (imageData s) < allocated s"
proof (induction rule: reachable.induct)
  case (init opts p s)
  then show ?case
    by (auto simp: create_def attach_def onInit_def createImageData_def requestAnimationFrame_def
             split: sum.splits option.splits)
next
  case (frame s h)
  then show ?case by (simp add: render_imageData)
next
  case (response s r rs img)
  then show ?case by (simp add: says_handler_ref says_handler_allocated)
next
  case (event s)
  then show ?case by simp
next
  case (detach s)
  then show ?case by (simp add: destroy_imageData)
qed

text \<open>
  C9. When the callback handles a response, the image buffer is replaced by a newly created
  one exactly if its size differs from the canvas's; otherwise the buffer in use stays the
  same object and nothing is created. A new buffer has the size of the canvas.
\<close>

theorem image_buffer_reallocated_iff:
  assumes "reachable s"
  shows "(img_ref (imageData (fst (says_handler img (s\<lparr>workerInbox := rs\<rparr>)))) \<noteq> img_ref (imageData s))
       = (img_width (imageData s) \<noteq> cv_width (canvas s) \<or> img_height (imageData s) \<noteq> cv_height (canvas s))
    \<and> (allocated (fst (says_handler img (s\<lparr>workerInbox := rs\<rparr>))) \<noteq> allocated s)
       = (img_width (imageData s) \<noteq> cv_width (canvas s) \<or> img_height (imageData s) \<noteq> cv_height (canvas s))
    \<and> img_width (imageData (fst (says_handler img (s\<lparr>workerInbox := rs\<rparr>)))) = cv_width (canvas s)
    \<and> img_height (imageData (fst (says_handler img (s\<lparr>workerInbox := rs\<rparr>)))) = cv_height (canvas s)"
  using reachable_ref [OF assms]
  by (simp add: says_handler_ref says_handler_allocated says_handler_dims)

theorem image_buffer_reallocated_iff_witness:
  "img_ref (imageData (fst (says_handler [] (in_flight_state\<lparr>workerInbox := []\<rparr>)))) \<noteq> img_ref (imageData in_flight_state)
   \<and> img_width (imageData in_flight_state) \<noteq> cv_width (canvas in_flight_state)"
proof -
  have "img_width (imageData in_flight_state) \<noteq> cv_width (canvas in_flight_state)"
    by (simp add: in_flight_state_eq tell_def resizeCanvas_def attached_state_def)
  with image_buffer_reallocated_iff [OF reachable_in_flight_state, of "[]" "[]"]
  show ?thesis by blast
qed

subsection \<open>One request in flight\<close>







subsection \<open>Two ticks in a row\<close>

lemma render_twice_inbox:
  "workerInbox (fst (render h (fst (render h s)))) = workerInbox (fst (render h s))"
  by (simp add: render_def Let_def resizeCanvas_def requestAnimationFrame_def tell_def
        split: option.splits sum.splits)

lemma render_twice_skipped:
  "\<not> terminated s \<Longrightarrow> wavesurfer s \<noteq> None \<Longrightarrow>
   animationFrames (fst (render h (fst (render h s)))) = animationFrames (fst (render h s)) + 1
   \<and> snd (render h (fst (render h s))) = None"
  by (auto simp: render_def Let_def resizeCanvas_def requestAnimationFrame_def tell_def
        split: option.splits sum.splits)

lemma render_same_range:
  assumes "\<not> terminated s" "update_needed s" "wavesurfer s \<noteq> None" "decodedData h = Some d"
    and "decodedData h' = Some d'"
    and "sS h' (ab_length d') = sS h (ab_length d)" "eS h' (ab_length d') = eS h (ab_length d)"
    and "sS h (ab_length d) \<noteq> NaN" "eS h (ab_length d) \<noteq> NaN"
  shows "workerInbox (fst (render h' ((fst (render h s))\<lparr>update_needed := True\<rparr>)))
      = workerInbox (fst (render h s))"
proof -
  let ?t = "(fst (render h s))\<lparr>update_needed := True\<rparr>"
  have r: "old_sS ?t = sS h (ab_length d)" "old_eS ?t = eS h (ab_length d)"
    using render_range [OF assms(1-4)] by simp_all
  have q: "js_eq (sS h' (ab_length d')) (old_sS ?t) \<and> js_eq (eS h' (ab_length d')) (old_eS ?t)"
    using assms(6-9) r by (cases "sS h (ab_length d)"; cases "eS h (ab_length d)") simp_all
  from render_inbox [of h' ?t] show ?thesis
    using q assms(5) by auto
qed

text \<open>
  C6. Two ticks in a row on the same host state: the second one sends nothing, so the two
  together send at most one request; on a plugin that is attached and not terminated the
  second one is a skipped cycle, which requests the next frame and ends normally. And when the flag is set again in between but the
  second tick computes the range the first one stored (a range of numbers, as 1000 to
  2000), the second tick sends nothing either.
\<close>

theorem second_tick_sends_nothing:
  "workerInbox (fst (render h (fst (render h s)))) = workerInbox (fst (render h s))
   \<and> length (workerInbox (fst (render h (fst (render h s))))) \<le> length (workerInbox s) + 1
   \<and> (\<not> terminated s \<and> wavesurfer s \<noteq> None
      \<longrightarrow> animationFrames (fst (render h (fst (render h s)))) = animationFrames (fst (render h s)) + 1
        \<and> snd (render h (fst (render h s))) = None)
   \<and> (\<not> terminated s \<and> update_needed s \<and> wavesurfer s \<noteq> None
        \<and> decodedData h = Some d \<and> decodedData h' = Some d'
        \<and> sS h' (ab_length d') = sS h (ab_length d) \<and> eS h' (ab_length d') = eS h (ab_length d)
        \<and> sS h (ab_length d) \<noteq> NaN \<and> eS h (ab_length d) \<noteq> NaN
      \<longrightarrow> workerInbox (fst (render h' ((fst (render h s))\<lparr>update_needed := True\<rparr>)))
            = workerInbox (fst (render h s)))"
proof -
  have "length (workerInbox (fst (render h s))) \<le> length (workerInbox s) + 1"
    using render_inbox [of h s] by auto
  then show ?thesis
    using render_twice_inbox [of h s] render_same_range [of s h d h' d']
      render_twice_skipped [of s h] by auto
qed

lemma visible_1000_2000_range:
  "sS visible_1000_2000 (ab_length audio44100) = Num 1000"
  "eS visible_1000_2000 (ab_length audio44100) = Num 2000"
  by (simp_all add: sS_def eS_def visible_1000_2000_def half_visible_def audio44100_def)

theorem second_tick_sends_nothing_witness:
  "sS visible_1000_2000 (ab_length audio44100) = Num 1000
   \<and> eS visible_1000_2000 (ab_length audio44100) = Num 2000
   \<and> workerInbox (fst (render visible_1000_2000
        ((fst (render visible_1000_2000 (attached_state\<lparr>update_needed := True\<rparr>)))\<lparr>update_needed := True\<rparr>)))
      = workerInbox (fst (render visible_1000_2000 (attached_state\<lparr>update_needed := True\<rparr>)))"
proof -
  have "\<not> terminated (attached_state\<lparr>update_needed := True\<rparr>)"
    "update_needed (attached_state\<lparr>update_needed := True\<rparr>)"
    "wavesurfer (attached_state\<lparr>update_needed := True\<rparr>) \<noteq> None"
    "decodedData visible_1000_2000 = Some audio44100"
    by (simp_all add: attached_state_def visible_1000_2000_def half_visible_def)
  with second_tick_sends_nothing [of visible_1000_2000 "attached_state\<lparr>update_needed := True\<rparr>"
      audio44100 visible_1000_2000 audio44100]
  show ?thesis by (simp add: visible_1000_2000_range)
qed

subsection \<open>A response after detach\<close>

lemma says_handler_completes:
  assumes "snd (says_handler img s) = None"
  shows "animationFrames (fst (says_handler img s)) = animationFrames s + 1
    \<and> cv_bitmap (canvas (fst (says_handler img s))) = img_data (imageData (fst (says_handler img s)))
    \<and> take (length img) (img_data (imageData (fst (says_handler img s)))) = img
    \<and> terminated (fst (says_handler img s)) = terminated s"
  using assms
  by (auto simp: says_handler_def Let_def createImageData_def putImageData_def
        requestAnimationFrame_def typedArraySet_def split: if_splits)

lemma render_terminated: "terminated s \<Longrightarrow> render h s = (s, None)"
  by (simp add: render_def)

text \<open>
  C4, as the code has it. The callback does not look at \<open>terminated\<close>. A response handled
  after detach, whose bytes fit the buffer, is written to the image buffer and blitted, and
  one animation frame is requested, as before detach. The tick of that frame is what does
  nothing: it returns at once, sends no request and requests no frame.
\<close>

theorem response_after_detach_is_drawn:
  assumes "terminated s" "snd (says_handler img s) = None"
  shows "animationFrames (fst (says_handler img s)) = animationFrames s + 1
    \<and> cv_bitmap (canvas (fst (says_handler img s))) = img_data (imageData (fst (says_handler img s)))
    \<and> take (length img) (img_data (imageData (fst (says_handler img s)))) = img
    \<and> render h (fst (says_handler img s)) = (fst (says_handler img s), None)"
proof -
  note c = says_handler_completes [OF assms(2)]
  then have "terminated (fst (says_handler img s))" using assms(1) by simp
  then have "render h (fst (says_handler img s)) = (fst (says_handler img s), None)"
    by (rule render_terminated)
  with c show ?thesis by simp
qed

lemma detached_state_fields:
  "terminated detached_state"
  "workerInbox detached_state \<noteq> []"
  "animationFrames detached_state = 0"
  "canvas detached_state = \<lparr>cv_width = 2, cv_height = 1, cv_bitmap = zeros 8\<rparr>"
  "imageData detached_state = \<lparr>img_ref = 0, img_width = 300, img_height = 150, img_data = zeros 180000\<rparr>"
  "allocated detached_state = 1"
  by (simp_all add: detached_state_eq in_flight_state_eq tell_def resizeCanvas_def attached_state_def)

lemma says_handler_detached:
  "says_handler [1, 2, 3, 4, 5, 6, 7, 8] (detached_state\<lparr>workerInbox := []\<rparr>) =
     (detached_state\<lparr>workerInbox := [],
        imageData := \<lparr>img_ref = 1, img_width = 2, img_height = 1, img_data = [1, 2, 3, 4, 5, 6, 7, 8]\<rparr>,
        allocated := 2,
        canvas := \<lparr>cv_width = 2, cv_height = 1, cv_bitmap = [1, 2, 3, 4, 5, 6, 7, 8]\<rparr>,
        animationFrames := 1\<rparr>, None)"
  by (simp add: says_handler_def Let_def createImageData_def putImageData_def
        requestAnimationFrame_def typedArraySet_def detached_state_fields)

theorem response_after_detach_is_drawn_witness:
  "terminated (detached_state\<lparr>workerInbox := []\<rparr>)
   \<and> animationFrames (fst (says_handler [1, 2, 3, 4, 5, 6, 7, 8] (detached_state\<lparr>workerInbox := []\<rparr>))) = 1
   \<and> cv_bitmap (canvas (fst (says_handler [1, 2, 3, 4, 5, 6, 7, 8] (detached_state\<lparr>workerInbox := []\<rparr>))))
       = img_data (imageData (fst (says_handler [1, 2, 3, 4, 5, 6, 7, 8] (detached_state\<lparr>workerInbox := []\<rparr>))))"
proof -
  have 1: "terminated (detached_state\<lparr>workerInbox := []\<rparr>)"
    by (simp add: detached_state_fields)
  have 2: "snd (says_handler [1, 2, 3, 4, 5, 6, 7, 8] (detached_state\<lparr>workerInbox := []\<rparr>)) = None"
    by (simp add: says_handler_detached)
  from response_after_detach_is_drawn [OF 1 2] 1 show ?thesis
    by (simp add: detached_state_fields)
qed

text \<open>
  The claim as the specification states it fails on the plugin destroyed with a request in
  flight: the response rewrites the image buffer, changes the canvas bitmap and requests a
  frame.
\<close>

theorem response_after_detach_counterexample:
  "terminated detached_state
   \<and> imageData (fst (says_handler [1, 2, 3, 4, 5, 6, 7, 8] (detached_state\<lparr>workerInbox := []\<rparr>)))
       \<noteq> imageData detached_state
   \<and> cv_bitmap (canvas (fst (says_handler [1, 2, 3, 4, 5, 6, 7, 8] (detached_state\<lparr>workerInbox := []\<rparr>))))
       \<noteq> cv_bitmap (canvas detached_state)
   \<and> animationFrames (fst (says_handler [1, 2, 3, 4, 5, 6, 7, 8] (detached_state\<lparr>workerInbox := []\<rparr>)))
       \<noteq> animationFrames detached_state"
proof -
  have "zeros 8 \<noteq> [1, 2, 3, 4, 5, 6, 7, 8]"
    by (simp add: zeros_def eval_nat_numeral)
  then show ?thesis
    by (simp add: says_handler_detached detached_state_fields)
qed

subsection \<open>An empty sample range\<close>

text \<open>
  C3, as the code has it. \<open>render\<close> has no test for an empty or inverted range. A tick that
  computes one is a skipped cycle, sending nothing and requesting the next frame, when the
  range equals the stored one; when it differs, the request is sent like any other and no
  frame is requested.
\<close>

theorem empty_range_tick:
  assumes "\<not> terminated s" "update_needed s" "wavesurfer s = Some ws" "wrapper s = Some wr"
    and "options s = Some opts" "spectroWorker s = Some w"
    and "decodedData h = Some d" "getChannelData d (channel opts) = Inr buffer"
    and "js_le (eS h (ab_length d)) (sS h (ab_length d))"
  shows "(js_eq (sS h (ab_length d)) (old_sS s) \<and> js_eq (eS h (ab_length d)) (old_eS s)
          \<longrightarrow> workerInbox (fst (render h s)) = workerInbox s
            \<and> animationFrames (fst (render h s)) = animationFrames s + 1)
    \<and> (\<not> (js_eq (sS h (ab_length d)) (old_sS s) \<and> js_eq (eS h (ab_length d)) (old_eS s))
          \<longrightarrow> (\<exists>r. workerInbox (fst (render h s)) = workerInbox s @ [r])
            \<and> animationFrames (fst (render h s)) = animationFrames s)"
proof (cases "js_eq (sS h (ab_length d)) (old_sS s) \<and> js_eq (eS h (ab_length d)) (old_eS s)")
  case True
  with assms(1,2,3,7) show ?thesis
    by (simp add: render_def Let_def requestAnimationFrame_def)
next
  case False
  from render_submits [OF assms(1,2,3,7) False assms(4,5,8,6)] False
  show ?thesis by (simp add: Let_def tell_def resizeCanvas_def)
qed

lemma nothing_visible_range:
  "sS nothing_visible (ab_length audio44100) = Num 0"
  "eS nothing_visible (ab_length audio44100) = Num 0"
  by (simp_all add: sS_def eS_def nothing_visible_def half_visible_def audio44100_def)

lemma nothing_visible_tick:
  "\<not> terminated (attached_state\<lparr>update_needed := True\<rparr>)"
  "update_needed (attached_state\<lparr>update_needed := True\<rparr>)"
  "wavesurfer (attached_state\<lparr>update_needed := True\<rparr>) = Some Obj"
  "wrapper (attached_state\<lparr>update_needed := True\<rparr>) = Some Obj"
  "options (attached_state\<lparr>update_needed := True\<rparr>) = Some defaultOptions"
  "spectroWorker (attached_state\<lparr>update_needed := True\<rparr>) = Some Obj"
  "decodedData nothing_visible = Some audio44100"
  "getChannelData audio44100 (channel defaultOptions) = Inr (replicate 44100 0)"
  "old_sS (attached_state\<lparr>update_needed := True\<rparr>) = Num (- 1)"
  "old_eS (attached_state\<lparr>update_needed := True\<rparr>) = Num (- 1)"
  "workerInbox (attached_state\<lparr>update_needed := True\<rparr>) = []"
  by (simp_all add: attached_state_def nothing_visible_def half_visible_def audio44100_def
        getChannelData_def defaultOptions_def)

theorem empty_range_tick_witness:
  "js_le (eS nothing_visible (ab_length audio44100)) (sS nothing_visible (ab_length audio44100))
   \<and> (\<exists>r. workerInbox (fst (render nothing_visible (attached_state\<lparr>update_needed := True\<rparr>))) = [r])"
proof -
  have le: "js_le (eS nothing_visible (ab_length audio44100)) (sS nothing_visible (ab_length audio44100))"
    by (simp add: nothing_visible_range js_le_def)
  have ne: "\<not> (js_eq (sS nothing_visible (ab_length audio44100)) (old_sS (attached_state\<lparr>update_needed := True\<rparr>))
      \<and> js_eq (eS nothing_visible (ab_length audio44100)) (old_eS (attached_state\<lparr>update_needed := True\<rparr>)))"
    by (simp add: nothing_visible_range nothing_visible_tick)
  from empty_range_tick [OF nothing_visible_tick(1-8) le] ne
  have "\<exists>r. workerInbox (fst (render nothing_visible (attached_state\<lparr>update_needed := True\<rparr>)))
      = workerInbox (attached_state\<lparr>update_needed := True\<rparr>) @ [r]" by blast
  with le show ?thesis by (simp add: nothing_visible_tick)
qed

text \<open>
  The claim as the specification states it fails on the first tick with nothing visible:
  the range is 0 to 0 and a request is sent.
\<close>

theorem empty_range_counterexample:
  "js_le (eS nothing_visible (ab_length audio44100)) (sS nothing_visible (ab_length audio44100))
   \<and> workerInbox (fst (render nothing_visible (attached_state\<lparr>update_needed := True\<rparr>)))
       \<noteq> workerInbox (attached_state\<lparr>update_needed := True\<rparr>)
   \<and> animationFrames (fst (render nothing_visible (attached_state\<lparr>update_needed := True\<rparr>)))
       = animationFrames (attached_state\<lparr>update_needed := True\<rparr>)"
proof -
  have ne: "\<not> (js_eq (sS nothing_visible (ab_length audio44100)) (old_sS (attached_state\<lparr>update_needed := True\<rparr>))
      \<and> js_eq (eS nothing_visible (ab_length audio44100)) (old_eS (attached_state\<lparr>update_needed := True\<rparr>)))"
    by (simp add: nothing_visible_range nothing_visible_tick)
  from render_submits [OF nothing_visible_tick(1,2,3,7) ne nothing_visible_tick(4,5,8,6)]
  show ?thesis
    by (simp add: Let_def tell_def resizeCanvas_def nothing_visible_range js_le_def)
qed

subsection \<open>The padded samples\<close>














end
